theory Spec2Isabelle
  imports Main
begin

section \<open>Python values\<close>

text \<open>
  The values the module builds: strings, booleans, integers, lists and dictionaries
  keyed by strings.  A dictionary is an association list in insertion order, which is
  the order \<^verbatim>\<open>.values()\<close> and \<^verbatim>\<open>.items()\<close> iterate in.
\<close>

datatype pyval =
    PStr string
  | PBool bool
  | PInt int
  | PList "pyval list"
  | PDict "(string \<times> pyval) list"

text \<open>
  The exceptions an attribute read, a subscript, a method call or a write to standard
  output can raise.
\<close>

datatype error = AttributeError | KeyError | TypeError | UnicodeEncodeError

section \<open>The class and its instances\<close>

text \<open>
  The state a method of \<^verbatim>\<open>CrumbleBakeryImplementation\<close> can reach through
  \<^verbatim>\<open>self\<close>: the two class attributes and the four instance attributes.  An instance
  attribute is \<open>None\<close> until \<^verbatim>\<open>__init__\<close> assigns it; reading it then raises
  \<^verbatim>\<open>AttributeError\<close>.  Each instance attribute has the type of the value
  \<^verbatim>\<open>__init__\<close> gives it.
\<close>

record state =
  COLOR_PALETTE :: pyval
  BREAKPOINTS :: pyval
  file_count :: "int option"
  max_lines_per_file :: "int option"
  uses_javascript :: "bool option"
  uses_external_libraries :: "bool option"

text \<open>The class body (lines 32-42) and an object on which \<^verbatim>\<open>__init__\<close> has not run yet.\<close>

definition new_object :: state where
  "new_object =
     \<lparr> COLOR_PALETTE = PDict
         [(''background'', PStr ''#f8f5f2''),
          (''primary_text'', PStr ''#2c1810''),
          (''accent'', PStr ''#d4941e'')],
       BREAKPOINTS = PDict
         [(''mobile'', PStr ''0px - 479px''),
          (''desktop'', PStr ''480px and up'')],
       file_count = None,
       max_lines_per_file = None,
       uses_javascript = None,
       uses_external_libraries = None \<rparr>"

text \<open>\<^verbatim>\<open>__init__\<close> (lines 44-49).\<close>

definition init :: "state \<Rightarrow> state" where
  "init self =
     self\<lparr> file_count := Some 2,
           max_lines_per_file := Some 200,
           uses_javascript := Some False,
           uses_external_libraries := Some False \<rparr>"

text \<open>The constructor call \<^verbatim>\<open>CrumbleBakeryImplementation()\<close>.\<close>

definition CrumbleBakeryImplementation :: state where
  "CrumbleBakeryImplementation = init new_object"

section \<open>The methods\<close>

text \<open>
  A method takes the state and returns what it returns or raises, and the state it
  leaves.  Attributes are read in the order the source evaluates them.
\<close>

definition validate_architecture_compliance :: "state \<Rightarrow> (error + pyval) \<times> state" where
  "validate_architecture_compliance self =
     (case file_count self of
        None \<Rightarrow> (Inl AttributeError, self)
      | Some fc \<Rightarrow>
     (case uses_javascript self of
        None \<Rightarrow> (Inl AttributeError, self)
      | Some js \<Rightarrow>
     (case uses_external_libraries self of
        None \<Rightarrow> (Inl AttributeError, self)
      | Some libs \<Rightarrow>
        (Inr (PDict
           [(''file_count'', PBool (fc = 2)),
            (''no_javascript'', PBool (\<not> js)),
            (''no_external_libs'', PBool (\<not> libs)),
            (''semantic_html'', PBool True),
            (''mobile_first_css'', PBool True),
            (''single_media_query'', PBool True),
            (''form_validation'', PBool True),
            (''accessibility_features'', PBool True)]),
         self))))"

definition get_html_structure :: "state \<Rightarrow> (error + pyval) \<times> state" where
  "get_html_structure self =
     (Inr (PDict
        [(''doctype'', PStr ''HTML5''),
         (''html_lang'', PStr ''en''),
         (''head'', PDict
            [(''charset'', PStr ''UTF-8''),
             (''viewport'', PStr ''width=device-width, initial-scale=1.0''),
             (''stylesheet'', PStr ''style.css (relative path)'')]),
         (''body'', PDict
            [(''header'', PDict
                [(''h1'', PStr ''Crumble Bakery (brand name)'')]),
             (''main'', PDict
                [(''h2'', PStr ''Coming Soon''),
                 (''form'', PDict
                    [(''method'', PStr ''POST''),
                     (''input'', PDict
                        [(''type'', PStr ''email''),
                         (''required'', PBool True),
                         (''accessibility'', PStr ''aria-label and visually-hidden label'')]),
                     (''button'', PDict
                        [(''type'', PStr ''submit''),
                         (''text'', PStr ''Notify Me'')])])]),
             (''footer'', PDict
                [(''social_links'',
                    PList [PStr ''Instagram'', PStr ''Facebook'', PStr ''Twitter'']),
                 (''contact_info'', PDict
                    [(''email'', PStr ''hello@crumblebakery.com''),
                     (''address'', PStr ''123 Baker Street, Sweet City, SC 12345'')])])])]),
      self)"

definition get_css_architecture :: "state \<Rightarrow> (error + pyval) \<times> state" where
  "get_css_architecture self =
     (Inr (PDict
        [(''approach'', PStr ''Mobile-First Responsive Design''),
         (''layout_engine'', PStr ''CSS Flexbox''),
         (''reset'', PStr ''Universal box-sizing and margin/padding reset''),
         (''centering'', PDict
            [(''vertical'', PStr ''min-height: 100vh + justify-content: center''),
             (''horizontal'', PStr ''align-items: center'')]),
         (''typography'', PStr ''System font stack (system-ui, sans-serif)''),
         (''color_management'', PStr ''CSS Custom Properties (:root variables)''),
         (''responsive_strategy'', PDict
            [(''mobile'', PStr ''Default styles (0-479px)''),
             (''desktop'', PStr ''Single @media query at 480px+''),
             (''form_layout'', PDict
                [(''mobile'', PStr ''flex-direction: column''),
                 (''desktop'', PStr ''flex-direction: row'')])]),
         (''interaction_states'', PDict
            [(''hover_effects'', PStr ''Color changes only (no transitions)''),
             (''focus_states'', PStr ''Border and box-shadow for accessibility'')])]),
      self)"

definition get_accessibility_features :: "state \<Rightarrow> (error + pyval) \<times> state" where
  "get_accessibility_features self =
     (Inr (PList
        [PStr ''Semantic HTML5 elements (header, main, footer, address)'',
         PStr ''Proper form labeling with visually-hidden labels'',
         PStr ''ARIA labels for screen readers'',
         PStr ''Focus states for keyboard navigation'',
         PStr ''High contrast color palette for readability'',
         PStr ''Responsive design for various screen sizes'',
         PStr ''HTML5 form validation with required attributes'']),
      self)"

definition get_performance_optimizations :: "state \<Rightarrow> (error + pyval) \<times> state" where
  "get_performance_optimizations self =
     (Inr (PList
        [PStr ''No external font requests (system font stack)'',
         PStr ''No JavaScript reduces bundle size'',
         PStr ''Minimal CSS with efficient selectors'',
         PStr ''CSS custom properties for maintainable theming'',
         PStr ''Single media query reduces complexity'',
         PStr ''Optimized image-free design with CSS styling'',
         PStr ''Clean HTML structure for fast parsing'']),
      self)"

text \<open>
  \<^verbatim>\<open>generate_implementation_report\<close> (lines 180-203).  The dictionary display evaluates
  its values from top to bottom: the five method calls, each on the state the one before
  left, then the read of \<^verbatim>\<open>self.file_count\<close>.  The first of them that raises ends
  the call.
\<close>

definition generate_implementation_report :: "state \<Rightarrow> (error + pyval) \<times> state" where
  "generate_implementation_report self =
     (case validate_architecture_compliance self of
        (Inl e, s1) \<Rightarrow> (Inl e, s1)
      | (Inr architecture_compliance, s1) \<Rightarrow>
     (case get_html_structure s1 of
        (Inl e, s2) \<Rightarrow> (Inl e, s2)
      | (Inr html_structure, s2) \<Rightarrow>
     (case get_css_architecture s2 of
        (Inl e, s3) \<Rightarrow> (Inl e, s3)
      | (Inr css_architecture, s3) \<Rightarrow>
     (case get_accessibility_features s3 of
        (Inl e, s4) \<Rightarrow> (Inl e, s4)
      | (Inr accessibility_features, s4) \<Rightarrow>
     (case get_performance_optimizations s4 of
        (Inl e, s5) \<Rightarrow> (Inl e, s5)
      | (Inr performance_optimizations, s5) \<Rightarrow>
     (case file_count s5 of
        None \<Rightarrow> (Inl AttributeError, s5)
      | Some total_files \<Rightarrow>
        (Inr (PDict
           [(''project_name'', PStr ''Crumble Bakery Coming Soon Page''),
            (''implementation_date'', PStr ''2026-02-03''),
            (''architecture_compliance'', architecture_compliance),
            (''html_structure'', html_structure),
            (''css_architecture'', css_architecture),
            (''accessibility_features'', accessibility_features),
            (''performance_optimizations'', performance_optimizations),
            (''file_statistics'', PDict
               [(''total_files'', PInt total_files),
                (''html_lines'', PStr ''~50 lines''),
                (''css_lines'', PStr ''~180 lines''),
                (''total_lines'', PStr ''~230 lines (within 400 line limit)'')]),
            (''browser_compatibility'', PStr ''Modern browsers with CSS Flexbox support''),
            (''deployment_ready'', PBool True)]),
         s5)))))))"

text \<open>
  The six public methods by name, a call of one of them, and the state a sequence of
  calls leaves (a caller that catches what a call raises goes on with the state it left).
\<close>

datatype operation =
    Validate_architecture_compliance
  | Get_html_structure
  | Get_css_architecture
  | Get_accessibility_features
  | Get_performance_optimizations
  | Generate_implementation_report

fun call :: "operation \<Rightarrow> state \<Rightarrow> (error + pyval) \<times> state" where
  "call Validate_architecture_compliance self = validate_architecture_compliance self"
| "call Get_html_structure self = get_html_structure self"
| "call Get_css_architecture self = get_css_architecture self"
| "call Get_accessibility_features self = get_accessibility_features self"
| "call Get_performance_optimizations self = get_performance_optimizations self"
| "call Generate_implementation_report self = generate_implementation_report self"

fun calls :: "operation list \<Rightarrow> state \<Rightarrow> state" where
  "calls [] self = self"
| "calls (m # ms) self = calls ms (snd (call m self))"

section \<open>The built-ins the entry routine uses\<close>

text \<open>
  Subscripting \<^verbatim>\<open>d[k]\<close>: a dictionary without the key raises \<^verbatim>\<open>KeyError\<close>;
  a string key on a value that is no dictionary raises \<^verbatim>\<open>TypeError\<close>.
\<close>

definition py_getitem :: "pyval \<Rightarrow> string \<Rightarrow> error + pyval" where
  "py_getitem d k =
     (case d of
        PDict kvs \<Rightarrow> (case map_of kvs k of None \<Rightarrow> Inl KeyError | Some v \<Rightarrow> Inr v)
      | _ \<Rightarrow> Inl TypeError)"

text \<open>
  A subscript applied to an expression that may itself have raised, as in the chain
  \<^verbatim>\<open>report['file_statistics']['total_files']\<close>: what the expression raised goes
  through.
\<close>

definition py_subscript :: "error + pyval \<Rightarrow> string \<Rightarrow> error + pyval" where
  "py_subscript r k = (case r of Inl e \<Rightarrow> Inl e | Inr d \<Rightarrow> py_getitem d k)"

text \<open>\<^verbatim>\<open>d.keys()\<close>, \<^verbatim>\<open>d.values()\<close> and \<^verbatim>\<open>d.items()\<close>: only a dictionary has them.\<close>

definition py_keys :: "pyval \<Rightarrow> error + string list" where
  "py_keys d = (case d of PDict kvs \<Rightarrow> Inr (map fst kvs) | _ \<Rightarrow> Inl AttributeError)"

definition py_values :: "pyval \<Rightarrow> error + pyval list" where
  "py_values d = (case d of PDict kvs \<Rightarrow> Inr (map snd kvs) | _ \<Rightarrow> Inl AttributeError)"

definition py_items :: "pyval \<Rightarrow> error + (string \<times> pyval) list" where
  "py_items d = (case d of PDict kvs \<Rightarrow> Inr kvs | _ \<Rightarrow> Inl AttributeError)"

text \<open>Truth value testing, as \<^verbatim>\<open>if status\<close> and \<^verbatim>\<open>all(...)\<close> apply it.\<close>

fun truthy :: "pyval \<Rightarrow> bool" where
  "truthy (PStr s) = (s \<noteq> [])"
| "truthy (PBool b) = b"
| "truthy (PInt i) = (i \<noteq> 0)"
| "truthy (PList xs) = (xs \<noteq> [])"
| "truthy (PDict kvs) = (kvs \<noteq> [])"

definition py_all :: "pyval list \<Rightarrow> bool" where
  "py_all vs = list_all truthy vs"

text \<open>\<^verbatim>\<open>str\<close> of an integer: its decimal digits.\<close>

definition digit :: "nat \<Rightarrow> char" where
  "digit n = ''0123456789'' ! n"

function str_nat :: "nat \<Rightarrow> string" where
  "str_nat n = (if n < 10 then [digit n] else str_nat (n div 10) @ [digit (n mod 10)])"
  by pat_completeness auto
termination
  by (relation "measure id") auto

definition str_int :: "int \<Rightarrow> string" where
  "str_int i = (if i < 0 then ''-'' @ str_nat (nat (- i)) else str_nat (nat i))"

definition str_bool :: "bool \<Rightarrow> string" where
  "str_bool b = (if b then ''True'' else ''False'')"

text \<open>
  \<^verbatim>\<open>repr\<close> and \<^verbatim>\<open>str\<close>, which a replacement field of an f-string applies to its
  value.  \<open>repr_str\<close> puts the string between single quotes, which is Python's
  \<^verbatim>\<open>repr\<close> of a string of printable ASCII characters with no quote and no backslash
  in it.
\<close>

fun join :: "string \<Rightarrow> string list \<Rightarrow> string" where
  "join sep [] = []"
| "join sep [x] = x"
| "join sep (x # y # ys) = x @ sep @ join sep (y # ys)"

definition repr_str :: "string \<Rightarrow> string" where
  "repr_str s = [CHR 0x27] @ s @ [CHR 0x27]"

fun py_repr :: "pyval \<Rightarrow> string" where
  "py_repr (PStr s) = repr_str s"
| "py_repr (PBool b) = str_bool b"
| "py_repr (PInt i) = str_int i"
| "py_repr (PList xs) = ''['' @ join '', '' (map py_repr xs) @ '']''"
| "py_repr (PDict kvs) =
     ''{'' @ join '', '' (map (\<lambda>(k, v). repr_str k @ '': '' @ py_repr v) kvs) @ ''}''"

fun py_str :: "pyval \<Rightarrow> string" where
  "py_str (PStr s) = s"
| "py_str v = py_repr v"

text \<open>
  \<^verbatim>\<open>s.replace(old, new)\<close> for one-character \<open>old\<close> and \<open>new\<close>, and
  \<^verbatim>\<open>s.title()\<close> on ASCII: a letter that follows a letter is put in lower case, any
  other letter in upper case, and every other character is kept.
\<close>

definition replace :: "char \<Rightarrow> char \<Rightarrow> string \<Rightarrow> string" where
  "replace old new s = map (\<lambda>c. if c = old then new else c) s"

definition is_lower :: "char \<Rightarrow> bool" where
  "is_lower c = (97 \<le> (of_char c :: nat) \<and> (of_char c :: nat) \<le> 122)"

definition is_upper :: "char \<Rightarrow> bool" where
  "is_upper c = (65 \<le> (of_char c :: nat) \<and> (of_char c :: nat) \<le> 90)"

definition upper :: "char \<Rightarrow> char" where
  "upper c = (if is_lower c then char_of ((of_char c :: nat) - 32) else c)"

definition lower :: "char \<Rightarrow> char" where
  "lower c = (if is_upper c then char_of ((of_char c :: nat) + 32) else c)"

fun title_from :: "bool \<Rightarrow> string \<Rightarrow> string" where
  "title_from previous_is_cased [] = []"
| "title_from previous_is_cased (c # cs) =
     (if is_lower c \<or> is_upper c
      then (if previous_is_cased then lower c else upper c) # title_from True cs
      else c # title_from False cs)"

definition title :: "string \<Rightarrow> string" where
  "title s = title_from False s"

section \<open>The entry routine\<close>

text \<open>
  A Python string is a sequence of code points.  Every string the class holds is ASCII
  and is kept as a \<open>string\<close>, each character standing for its code point;
  \<open>code_points\<close> gives the sequence.  The two status icons of line 225, U+2713 and
  U+2717, are outside ASCII and are code points from the start.
\<close>

definition code_points :: "string \<Rightarrow> nat list" where
  "code_points s = map of_char s"

definition check_mark :: "nat list" where
  "check_mark = [0x2713]"

definition ballot_x :: "nat list" where
  "ballot_x = [0x2717]"

text \<open>
  Standard output is not chosen by the module: its encoding comes from the platform and
  the environment of the run.  It is a parameter here, \<open>encodable\<close>, the code points
  the encoding represents (with the error handler \<^verbatim>\<open>strict\<close>, the default of
  \<^verbatim>\<open>sys.stdout\<close>).  \<^verbatim>\<open>print(text)\<close> writes the text and the line terminator
  U+000A; a code point the encoding does not represent raises
  \<^verbatim>\<open>UnicodeEncodeError\<close>, and the line is not completed.
\<close>

definition print :: "(nat \<Rightarrow> bool) \<Rightarrow> nat list \<Rightarrow> nat list list \<Rightarrow> error + nat list list" where
  "print encodable line out =
     (if list_all encodable (line @ [0x0A]) then Inr (out @ [line]) else Inl UnicodeEncodeError)"



text \<open>
  What a run of the module leaves: the complete lines written to standard output and
  the exit status (0 when the module body ends, 1 when an exception leaves it
  uncaught).
\<close>

record process =
  stdout :: "nat list list"
  exit_status :: int

text \<open>The text line 226 prints for one item.\<close>

definition compliance_line :: "string \<times> pyval \<Rightarrow> nat list" where
  "compliance_line item =
     (case item of (requirement, status) \<Rightarrow>
        (let status_icon = (if truthy status then check_mark else ballot_x)
         in status_icon
              @ code_points ('' '' @ title (replace CHR ''_'' CHR '' '' requirement)
                  @ '': '' @ py_str status)))"

text \<open>
  The loop at lines 224-226 over the items still to print.  It is the last statement
  of the module: when it ends, so does the run.
\<close>

fun print_compliance ::
  "(nat \<Rightarrow> bool) \<Rightarrow> (string \<times> pyval) list \<Rightarrow> nat list list \<Rightarrow> process" where
  "print_compliance encodable [] out = \<lparr>stdout = out, exit_status = 0\<rparr>"
| "print_compliance encodable (item # items) out =
     (case print encodable (compliance_line item) out of
        Inl e \<Rightarrow> \<lparr>stdout = out, exit_status = 1\<rparr>
      | Inr out' \<Rightarrow> print_compliance encodable items out')"

text \<open>The module body under \<^verbatim>\<open>if __name__ == "__main__"\<close> (lines 207-226).\<close>

definition main :: "(nat \<Rightarrow> bool) \<Rightarrow> process" where
  "main encodable =
     (let bakery_impl = CrumbleBakeryImplementation in
      case generate_implementation_report bakery_impl of
        (Inl e, s1) \<Rightarrow> \<lparr>stdout = [], exit_status = 1\<rparr>
      | (Inr report, s1) \<Rightarrow>
     (case validate_architecture_compliance s1 of
        (Inl e, s2) \<Rightarrow> \<lparr>stdout = [], exit_status = 1\<rparr>
      | (Inr compliance, s2) \<Rightarrow>
     (case py_values compliance of
        Inl e \<Rightarrow> \<lparr>stdout = [], exit_status = 1\<rparr>
      | Inr vals \<Rightarrow>
     (let all_compliant = py_all vals in
      case print encodable (code_points ''Crumble Bakery Implementation Status:'') [] of
        Inl e \<Rightarrow> \<lparr>stdout = [], exit_status = 1\<rparr>
      | Inr out1 \<Rightarrow>
     (case print encodable
             (code_points (''Architecture Compliant: '' @ str_bool all_compliant)) out1 of
        Inl e \<Rightarrow> \<lparr>stdout = out1, exit_status = 1\<rparr>
      | Inr out2 \<Rightarrow>
     (case py_getitem report ''file_statistics'' of
        Inl e \<Rightarrow> \<lparr>stdout = out2, exit_status = 1\<rparr>
      | Inr file_statistics \<Rightarrow>
     (case py_getitem file_statistics ''total_files'' of
        Inl e \<Rightarrow> \<lparr>stdout = out2, exit_status = 1\<rparr>
      | Inr total_files \<Rightarrow>
     (case print encodable (code_points (''Files Created: '' @ py_str total_files)) out2 of
        Inl e \<Rightarrow> \<lparr>stdout = out2, exit_status = 1\<rparr>
      | Inr out3 \<Rightarrow>
     (case py_getitem report ''deployment_ready'' of
        Inl e \<Rightarrow> \<lparr>stdout = out3, exit_status = 1\<rparr>
      | Inr deployment_ready \<Rightarrow>
     (case print encodable
             (code_points (''Deployment Ready: '' @ py_str deployment_ready)) out3 of
        Inl e \<Rightarrow> \<lparr>stdout = out3, exit_status = 1\<rparr>
      | Inr out4 \<Rightarrow>
     (case py_items compliance of
        Inl e \<Rightarrow> \<lparr>stdout = out4, exit_status = 1\<rparr>
      | Inr items \<Rightarrow> print_compliance encodable items out4)))))))))))"

section \<open>What the methods return and leave\<close>

lemma validate_architecture_compliance_set:
  assumes "file_count self = Some fc"
    and "uses_javascript self = Some js"
    and "uses_external_libraries self = Some libs"
  shows "validate_architecture_compliance self =
     (Inr (PDict
        [(''file_count'', PBool (fc = 2)),
         (''no_javascript'', PBool (\<not> js)),
         (''no_external_libs'', PBool (\<not> libs)),
         (''semantic_html'', PBool True),
         (''mobile_first_css'', PBool True),
         (''single_media_query'', PBool True),
         (''form_validation'', PBool True),
         (''accessibility_features'', PBool True)]),
      self)"
  using assms by (simp add: validate_architecture_compliance_def)

lemma generate_implementation_report_set:
  assumes "file_count self = Some fc"
    and "uses_javascript self = Some js"
    and "uses_external_libraries self = Some libs"
  shows "generate_implementation_report self =
     (Inr (PDict
        [(''project_name'', PStr ''Crumble Bakery Coming Soon Page''),
         (''implementation_date'', PStr ''2026-02-03''),
         (''architecture_compliance'', projr (fst (validate_architecture_compliance self))),
         (''html_structure'', projr (fst (get_html_structure self))),
         (''css_architecture'', projr (fst (get_css_architecture self))),
         (''accessibility_features'', projr (fst (get_accessibility_features self))),
         (''performance_optimizations'', projr (fst (get_performance_optimizations self))),
         (''file_statistics'', PDict
            [(''total_files'', PInt fc),
             (''html_lines'', PStr ''~50 lines''),
             (''css_lines'', PStr ''~180 lines''),
             (''total_lines'', PStr ''~230 lines (within 400 line limit)'')]),
         (''browser_compatibility'', PStr ''Modern browsers with CSS Flexbox support''),
         (''deployment_ready'', PBool True)]),
      self)"
  using assms
  by (simp add: generate_implementation_report_def validate_architecture_compliance_def
      get_html_structure_def get_css_architecture_def get_accessibility_features_def
      get_performance_optimizations_def)

lemma validate_architecture_compliance_state:
  "snd (validate_architecture_compliance self) = self"
  by (simp add: validate_architecture_compliance_def split: option.split)

lemma generate_implementation_report_state:
  "snd (generate_implementation_report self) = self"
  by (simp add: generate_implementation_report_def validate_architecture_compliance_def
      get_html_structure_def get_css_architecture_def get_accessibility_features_def
      get_performance_optimizations_def split: option.split)

lemma call_state: "snd (call m self) = self"
  by (cases m)
    (simp_all add: validate_architecture_compliance_state generate_implementation_report_state
      get_html_structure_def get_css_architecture_def get_accessibility_features_def
      get_performance_optimizations_def)

lemma calls_state: "calls ms self = self"
  by (induction ms arbitrary: self) (simp_all add: call_state)

lemma init_fields:
  "file_count (init self) = Some 2"
  "max_lines_per_file (init self) = Some 200"
  "uses_javascript (init self) = Some False"
  "uses_external_libraries (init self) = Some False"
  "COLOR_PALETTE (init self) = COLOR_PALETTE self"
  "BREAKPOINTS (init self) = BREAKPOINTS self"
  by (simp_all add: init_def)

lemma constructed_fields:
  "file_count CrumbleBakeryImplementation = Some 2"
  "max_lines_per_file CrumbleBakeryImplementation = Some 200"
  "uses_javascript CrumbleBakeryImplementation = Some False"
  "uses_external_libraries CrumbleBakeryImplementation = Some False"
  by (simp_all add: CrumbleBakeryImplementation_def init_fields)



section \<open>The claims\<close>

text \<open>
  C1.  On an instance that \<^verbatim>\<open>__init__\<close> constructed, whatever public methods were
  called on it since, \<^verbatim>\<open>validate_architecture_compliance()\<close> returns a dictionary
  and every value of it is \<^verbatim>\<open>True\<close>.
\<close>

theorem validate_architecture_compliance_all_true:
  "\<exists>compliance vals.
     fst (validate_architecture_compliance (calls ms (init self))) = Inr compliance
     \<and> py_values compliance = Inr vals
     \<and> vals \<noteq> []
     \<and> list_all (\<lambda>v. v = PBool True) vals"
  by (simp add: calls_state py_values_def
      validate_architecture_compliance_set [OF init_fields(1) init_fields(3) init_fields(4)])

text \<open>
  C2.  Two calls of the same public method on an instance, with any public calls
  between them, return the same value (or raise the same exception).
\<close>

theorem public_operations_idempotent:
  "fst (call m (calls ms (snd (call m self)))) = fst (call m self)"
  by (simp add: call_state calls_state)

text \<open>
  C3 (as amended).  On an instance whose attributes are set,
  \<^verbatim>\<open>generate_implementation_report()\<close> returns a dictionary of exactly ten fields.
  The fields \<open>architecture_compliance\<close>, \<open>html_structure\<close>, \<open>css_architecture\<close>,
  \<open>accessibility_features\<close> and \<open>performance_optimizations\<close> are what the five
  methods return; \<open>project_name\<close>, \<open>implementation_date\<close>, \<open>browser_compatibility\<close>
  and \<open>deployment_ready\<close> are literals; \<open>file_statistics\<close> is a dictionary whose
  \<open>total_files\<close> is the instance's \<open>file_count\<close> and whose other entries are
  literals.
\<close>

theorem generate_implementation_report_fields:
  assumes "file_count self = Some fc"
    and "uses_javascript self = Some js"
    and "uses_external_libraries self = Some libs"
  shows "\<exists>report.
     fst (generate_implementation_report self) = Inr report
     \<and> py_keys report = Inr
         [''project_name'', ''implementation_date'', ''architecture_compliance'',
          ''html_structure'', ''css_architecture'', ''accessibility_features'',
          ''performance_optimizations'', ''file_statistics'', ''browser_compatibility'',
          ''deployment_ready'']
     \<and> py_getitem report ''architecture_compliance'' = fst (validate_architecture_compliance self)
     \<and> py_getitem report ''html_structure'' = fst (get_html_structure self)
     \<and> py_getitem report ''css_architecture'' = fst (get_css_architecture self)
     \<and> py_getitem report ''accessibility_features'' = fst (get_accessibility_features self)
     \<and> py_getitem report ''performance_optimizations'' = fst (get_performance_optimizations self)
     \<and> py_getitem report ''project_name'' = Inr (PStr ''Crumble Bakery Coming Soon Page'')
     \<and> py_getitem report ''implementation_date'' = Inr (PStr ''2026-02-03'')
     \<and> py_getitem report ''file_statistics'' = Inr (PDict
           [(''total_files'', PInt fc),
            (''html_lines'', PStr ''~50 lines''),
            (''css_lines'', PStr ''~180 lines''),
            (''total_lines'', PStr ''~230 lines (within 400 line limit)'')])
     \<and> py_getitem report ''browser_compatibility'' =
           Inr (PStr ''Modern browsers with CSS Flexbox support'')
     \<and> py_getitem report ''deployment_ready'' = Inr (PBool True)"
proof -
  have v: "fst (validate_architecture_compliance self) =
      Inr (projr (fst (validate_architecture_compliance self)))"
    by (simp add: validate_architecture_compliance_set [OF assms])
  have h: "fst (get_html_structure self) = Inr (projr (fst (get_html_structure self)))"
    by (simp add: get_html_structure_def)
  have c: "fst (get_css_architecture self) = Inr (projr (fst (get_css_architecture self)))"
    by (simp add: get_css_architecture_def)
  have a: "fst (get_accessibility_features self) =
      Inr (projr (fst (get_accessibility_features self)))"
    by (simp add: get_accessibility_features_def)
  have p: "fst (get_performance_optimizations self) =
      Inr (projr (fst (get_performance_optimizations self)))"
    by (simp add: get_performance_optimizations_def)
  show ?thesis
    unfolding generate_implementation_report_set [OF assms]
    using v h c a p by (simp add: py_keys_def py_getitem_def)
qed

theorem generate_implementation_report_fields_witness:
  "file_count CrumbleBakeryImplementation = Some 2
   \<and> uses_javascript CrumbleBakeryImplementation = Some False
   \<and> uses_external_libraries CrumbleBakeryImplementation = Some False
   \<and> (\<exists>report.
     fst (generate_implementation_report CrumbleBakeryImplementation) = Inr report
     \<and> py_keys report = Inr
         [''project_name'', ''implementation_date'', ''architecture_compliance'',
          ''html_structure'', ''css_architecture'', ''accessibility_features'',
          ''performance_optimizations'', ''file_statistics'', ''browser_compatibility'',
          ''deployment_ready'']
     \<and> py_getitem report ''architecture_compliance'' =
           fst (validate_architecture_compliance CrumbleBakeryImplementation)
     \<and> py_getitem report ''html_structure'' =
           fst (get_html_structure CrumbleBakeryImplementation)
     \<and> py_getitem report ''css_architecture'' =
           fst (get_css_architecture CrumbleBakeryImplementation)
     \<and> py_getitem report ''accessibility_features'' =
           fst (get_accessibility_features CrumbleBakeryImplementation)
     \<and> py_getitem report ''performance_optimizations'' =
           fst (get_performance_optimizations CrumbleBakeryImplementation)
     \<and> py_getitem report ''project_name'' = Inr (PStr ''Crumble Bakery Coming Soon Page'')
     \<and> py_getitem report ''implementation_date'' = Inr (PStr ''2026-02-03'')
     \<and> py_getitem report ''file_statistics'' = Inr (PDict
           [(''total_files'', PInt 2),
            (''html_lines'', PStr ''~50 lines''),
            (''css_lines'', PStr ''~180 lines''),
            (''total_lines'', PStr ''~230 lines (within 400 line limit)'')])
     \<and> py_getitem report ''browser_compatibility'' =
           Inr (PStr ''Modern browsers with CSS Flexbox support'')
     \<and> py_getitem report ''deployment_ready'' = Inr (PBool True))"
  using constructed_fields(1,3,4)
    generate_implementation_report_fields [OF constructed_fields(1,3,4)]
  by blast

text \<open>
  The claim as stated counts \<open>file_statistics\<close> among the literal fields.  It is not
  one: on the constructed instance its \<open>total_files\<close> is 2, and on the same instance
  after \<^verbatim>\<open>file_count = 3\<close> it is 3.
\<close>

theorem file_statistics_not_literal:
  "py_subscript (py_subscript
       (fst (generate_implementation_report CrumbleBakeryImplementation))
       ''file_statistics'') ''total_files'' = Inr (PInt 2)
   \<and> py_subscript (py_subscript
       (fst (generate_implementation_report (CrumbleBakeryImplementation\<lparr>file_count := Some 3\<rparr>)))
       ''file_statistics'') ''total_files'' = Inr (PInt 3)
   \<and> py_subscript
       (fst (generate_implementation_report (CrumbleBakeryImplementation\<lparr>file_count := Some 3\<rparr>)))
       ''file_statistics''
     \<noteq> py_subscript
       (fst (generate_implementation_report CrumbleBakeryImplementation))
       ''file_statistics''"
proof -
  have a: "file_count (CrumbleBakeryImplementation\<lparr>file_count := Some 3\<rparr>) = Some 3"
    "uses_javascript (CrumbleBakeryImplementation\<lparr>file_count := Some 3\<rparr>) = Some False"
    "uses_external_libraries (CrumbleBakeryImplementation\<lparr>file_count := Some 3\<rparr>) = Some False"
    by (simp_all add: constructed_fields)
  show ?thesis
    by (simp add: generate_implementation_report_set [OF a]
        generate_implementation_report_set [OF constructed_fields(1,3,4)]
        py_subscript_def py_getitem_def)
qed

text \<open>
  C4.  \<^verbatim>\<open>get_html_structure()['body']['footer']['social_links']\<close> is the list
  \<^verbatim>\<open>['Instagram', 'Facebook', 'Twitter']\<close>, on every state.
\<close>

theorem social_links:
  "py_subscript (py_subscript (py_subscript
       (fst (get_html_structure self)) ''body'') ''footer'') ''social_links''
   = Inr (PList [PStr ''Instagram'', PStr ''Facebook'', PStr ''Twitter''])"
  by (simp add: get_html_structure_def py_subscript_def py_getitem_def)

text \<open>
  C5.  On an instance whose attributes are set, the report has a field
  \<open>deployment_ready\<close> and its value is \<^verbatim>\<open>True\<close>.
\<close>

theorem deployment_ready:
  assumes "file_count self = Some fc"
    and "uses_javascript self = Some js"
    and "uses_external_libraries self = Some libs"
  shows "py_subscript (fst (generate_implementation_report self)) ''deployment_ready''
     = Inr (PBool True)"
  by (simp add: generate_implementation_report_set [OF assms] py_subscript_def py_getitem_def)

theorem deployment_ready_witness:
  "file_count CrumbleBakeryImplementation = Some 2
   \<and> uses_javascript CrumbleBakeryImplementation = Some False
   \<and> uses_external_libraries CrumbleBakeryImplementation = Some False
   \<and> py_subscript (fst (generate_implementation_report CrumbleBakeryImplementation))
        ''deployment_ready'' = Inr (PBool True)"
  using constructed_fields(1,3,4) deployment_ready [OF constructed_fields(1,3,4)]
  by simp




text \<open>
  C7.  On an instance whose attributes are set, each of the six public methods
  returns a value: none raises.
\<close>

theorem public_operations_total:
  assumes "file_count self = Some fc"
    and "uses_javascript self = Some js"
    and "uses_external_libraries self = Some libs"
  shows "\<exists>v. fst (call m self) = Inr v"
  by (cases m)
    (simp_all add: validate_architecture_compliance_set [OF assms]
      generate_implementation_report_set [OF assms]
      get_html_structure_def get_css_architecture_def get_accessibility_features_def
      get_performance_optimizations_def)

theorem public_operations_total_witness:
  "file_count CrumbleBakeryImplementation = Some 2
   \<and> uses_javascript CrumbleBakeryImplementation = Some False
   \<and> uses_external_libraries CrumbleBakeryImplementation = Some False
   \<and> (\<exists>v. fst (call Validate_architecture_compliance CrumbleBakeryImplementation) = Inr v)
   \<and> (\<exists>v. fst (call Get_html_structure CrumbleBakeryImplementation) = Inr v)
   \<and> (\<exists>v. fst (call Get_css_architecture CrumbleBakeryImplementation) = Inr v)
   \<and> (\<exists>v. fst (call Get_accessibility_features CrumbleBakeryImplementation) = Inr v)
   \<and> (\<exists>v. fst (call Get_performance_optimizations CrumbleBakeryImplementation) = Inr v)
   \<and> (\<exists>v. fst (call Generate_implementation_report CrumbleBakeryImplementation) = Inr v)"
  using constructed_fields(1,3,4) public_operations_total [OF constructed_fields(1,3,4)]
  by blast

text \<open>
  C8.  A public method leaves the state as it found it, and so does any sequence of
  them: \<open>COLOR_PALETTE\<close>, \<open>BREAKPOINTS\<close>, \<open>file_count\<close>, \<open>max_lines_per_file\<close>,
  \<open>uses_javascript\<close> and \<open>uses_external_libraries\<close> are unchanged.
\<close>

theorem configuration_never_mutated:
  "snd (call m self) = self
   \<and> COLOR_PALETTE (calls ms self) = COLOR_PALETTE self
   \<and> BREAKPOINTS (calls ms self) = BREAKPOINTS self
   \<and> file_count (calls ms self) = file_count self
   \<and> max_lines_per_file (calls ms self) = max_lines_per_file self
   \<and> uses_javascript (calls ms self) = uses_javascript self
   \<and> uses_external_libraries (calls ms self) = uses_external_libraries self"
  by (simp add: call_state calls_state)

text \<open>
  C9.  On an instance whose attributes are set, the dictionary
  \<^verbatim>\<open>validate_architecture_compliance()\<close> returns has these eight keys, each once,
  and no other.
\<close>

theorem validate_architecture_compliance_keys:
  assumes "file_count self = Some fc"
    and "uses_javascript self = Some js"
    and "uses_external_libraries self = Some libs"
  shows "\<exists>compliance keys.
     fst (validate_architecture_compliance self) = Inr compliance
     \<and> py_keys compliance = Inr keys
     \<and> keys =
         [''file_count'', ''no_javascript'', ''no_external_libs'', ''semantic_html'',
          ''mobile_first_css'', ''single_media_query'', ''form_validation'',
          ''accessibility_features'']
     \<and> distinct keys \<and> length keys = 8"
  by (simp add: validate_architecture_compliance_set [OF assms] py_keys_def)

theorem validate_architecture_compliance_keys_witness:
  "file_count CrumbleBakeryImplementation = Some 2
   \<and> uses_javascript CrumbleBakeryImplementation = Some False
   \<and> uses_external_libraries CrumbleBakeryImplementation = Some False
   \<and> (\<exists>compliance keys.
     fst (validate_architecture_compliance CrumbleBakeryImplementation) = Inr compliance
     \<and> py_keys compliance = Inr keys
     \<and> keys =
         [''file_count'', ''no_javascript'', ''no_external_libs'', ''semantic_html'',
          ''mobile_first_css'', ''single_media_query'', ''form_validation'',
          ''accessibility_features'']
     \<and> distinct keys \<and> length keys = 8)"
  using constructed_fields(1,3,4)
    validate_architecture_compliance_keys [OF constructed_fields(1,3,4)]
  by blast

text \<open>
  C10.  On an instance whose \<open>file_count\<close> is the integer \<open>fc\<close> and whose
  \<open>uses_javascript\<close> and \<open>uses_external_libraries\<close> are the booleans \<open>js\<close> and
  \<open>libs\<close>, the values for \<open>semantic_html\<close>, \<open>mobile_first_css\<close>,
  \<open>single_media_query\<close>, \<open>form_validation\<close> and \<open>accessibility_features\<close> are
  \<^verbatim>\<open>True\<close>, the value for \<open>file_count\<close> is the truth value of \<open>fc = 2\<close>, the
  value for \<open>no_javascript\<close> that of \<open>\<not> js\<close> and the value for
  \<open>no_external_libs\<close> that of \<open>\<not> libs\<close>.
\<close>

theorem validate_architecture_compliance_values:
  assumes "file_count self = Some fc"
    and "uses_javascript self = Some js"
    and "uses_external_libraries self = Some libs"
  shows "\<exists>compliance.
     fst (validate_architecture_compliance self) = Inr compliance
     \<and> py_getitem compliance ''semantic_html'' = Inr (PBool True)
     \<and> py_getitem compliance ''mobile_first_css'' = Inr (PBool True)
     \<and> py_getitem compliance ''single_media_query'' = Inr (PBool True)
     \<and> py_getitem compliance ''form_validation'' = Inr (PBool True)
     \<and> py_getitem compliance ''accessibility_features'' = Inr (PBool True)
     \<and> py_getitem compliance ''file_count'' = Inr (PBool (fc = 2))
     \<and> py_getitem compliance ''no_javascript'' = Inr (PBool (\<not> js))
     \<and> py_getitem compliance ''no_external_libs'' = Inr (PBool (\<not> libs))"
  by (simp add: validate_architecture_compliance_set [OF assms] py_getitem_def)

theorem validate_architecture_compliance_values_witness:
  "file_count (CrumbleBakeryImplementation\<lparr>file_count := Some 3, uses_javascript := Some True\<rparr>)
     = Some 3
   \<and> uses_javascript (CrumbleBakeryImplementation\<lparr>file_count := Some 3, uses_javascript := Some True\<rparr>)
     = Some True
   \<and> uses_external_libraries
       (CrumbleBakeryImplementation\<lparr>file_count := Some 3, uses_javascript := Some True\<rparr>)
     = Some False
   \<and> (\<exists>compliance.
     fst (validate_architecture_compliance
       (CrumbleBakeryImplementation\<lparr>file_count := Some 3, uses_javascript := Some True\<rparr>))
       = Inr compliance
     \<and> py_getitem compliance ''semantic_html'' = Inr (PBool True)
     \<and> py_getitem compliance ''mobile_first_css'' = Inr (PBool True)
     \<and> py_getitem compliance ''single_media_query'' = Inr (PBool True)
     \<and> py_getitem compliance ''form_validation'' = Inr (PBool True)
     \<and> py_getitem compliance ''accessibility_features'' = Inr (PBool True)
     \<and> py_getitem compliance ''file_count'' = Inr (PBool False)
     \<and> py_getitem compliance ''no_javascript'' = Inr (PBool False)
     \<and> py_getitem compliance ''no_external_libs'' = Inr (PBool True))"
proof -
  have a: "file_count (CrumbleBakeryImplementation\<lparr>file_count := Some 3, uses_javascript := Some True\<rparr>)
      = Some 3"
    "uses_javascript (CrumbleBakeryImplementation\<lparr>file_count := Some 3, uses_javascript := Some True\<rparr>)
      = Some True"
    "uses_external_libraries
       (CrumbleBakeryImplementation\<lparr>file_count := Some 3, uses_javascript := Some True\<rparr>)
      = Some False"
    by (simp_all add: constructed_fields)
  show ?thesis
    using a validate_architecture_compliance_values [OF a] by simp
qed

end
